theory Spec2Isabelle
  imports Complex_Main
begin

section \<open>JavaScript numbers and the two global parsers\<close>

text \<open>
  The list handler of \<^verbatim>\<open>routes/productRoutes.js\<close> reads its numeric parameters with
  the built-in functions \<^verbatim>\<open>parseFloat\<close> and \<^verbatim>\<open>parseInt\<close>. A JavaScript number is
  modelled by its exact value: a rational, one of the two infinities, or NaN. Rounding to
  binary64 (and overflow of a huge literal to Infinity) is not modelled, and the sign of zero
  is dropped. White space is the ASCII part of the language's white space (tab, line feed,
  vertical tab, form feed, carriage return, space).
\<close>

datatype jsnum = Num rat | PosInf | NegInf | NaN

definition is_ws :: "char \<Rightarrow> bool" where
  "is_ws c \<longleftrightarrow> c \<in> set [CHR 0x09, CHR 0x0A, CHR 0x0B, CHR 0x0C, CHR 0x0D, CHR '' '']"

definition is_digit :: "char \<Rightarrow> bool" where
  "is_digit c \<longleftrightarrow> c \<in> set ''0123456789''"

definition is_hex_digit :: "char \<Rightarrow> bool" where
  "is_hex_digit c \<longleftrightarrow> c \<in> set ''0123456789abcdefABCDEF''"

definition digit_of :: "char \<Rightarrow> nat" where
  "digit_of c =
     (case map_of (zip ''0123456789abcdefABCDEF''
                       [0, 1, 2, 3, 4, 5, 6, 7, 8, 9, 10, 11, 12, 13, 14, 15, 10, 11, 12, 13, 14, 15]) c of
        None \<Rightarrow> 0 | Some d \<Rightarrow> d)"

definition digits_val :: "nat \<Rightarrow> string \<Rightarrow> nat" where
  "digits_val radix ds = foldl (\<lambda>acc c. acc * radix + digit_of c) 0 ds"

text \<open>An optional leading sign: the sign read (\<open>True\<close> for minus) and the rest.\<close>

fun strip_sign :: "string \<Rightarrow> bool \<times> string" where
  "strip_sign [] = (False, [])"
| "strip_sign (c # cs) =
     (if c = CHR ''-'' then (True, cs) else if c = CHR ''+'' then (False, cs) else (False, c # cs))"

text \<open>
  \<^verbatim>\<open>parseInt(string)\<close> with no radix: leading white space is dropped, a sign is read, a
  prefix \<^verbatim>\<open>0x\<close> or \<^verbatim>\<open>0X\<close> selects radix 16, and the longest run of digits of the radix is
  the value. With no digit the result is NaN, here \<open>None\<close>.
\<close>

definition parseInt :: "string \<Rightarrow> int option" where
  "parseInt s =
     (let (neg, t) = strip_sign (dropWhile is_ws s);
          hex = (take 2 t = ''0x'' \<or> take 2 t = ''0X'');
          u = (if hex then drop 2 t else t);
          z = (if hex then takeWhile is_hex_digit u else takeWhile is_digit u);
          v = int (digits_val (if hex then 16 else 10) z)
      in if z = [] then None else Some (if neg then - v else v))"

text \<open>The exponent part of a decimal literal: \<^verbatim>\<open>e\<close> or \<^verbatim>\<open>E\<close>, a sign, digits. Without a
  digit there is no exponent part and the scale is 0.\<close>

definition exponent_of :: "string \<Rightarrow> int" where
  "exponent_of r =
     (case r of
        [] \<Rightarrow> 0
      | c # cs \<Rightarrow>
          if c = CHR ''e'' \<or> c = CHR ''E'' then
            (let (neg, ds) = strip_sign cs;
                 z = takeWhile is_digit ds;
                 v = int (digits_val 10 z)
             in if neg then - v else v)
          else 0)"

definition scale10 :: "rat \<Rightarrow> int \<Rightarrow> rat" where
  "scale10 m e = (if 0 \<le> e then m * 10 ^ nat e else m / 10 ^ nat (- e))"

text \<open>
  \<^verbatim>\<open>parseFloat(string)\<close>: leading white space is dropped and the longest prefix that is a
  decimal literal is read: a sign, then \<^verbatim>\<open>Infinity\<close> or digits with an optional fraction
  and exponent. With no such prefix the result is NaN.
\<close>

definition parseFloat :: "string \<Rightarrow> jsnum" where
  "parseFloat s =
     (let (neg, u) = strip_sign (dropWhile is_ws s) in
      if take 8 u = ''Infinity'' then (if neg then NegInf else PosInf)
      else
        (let ip = takeWhile is_digit u;
             r1 = dropWhile is_digit u;
             dot = (r1 \<noteq> [] \<and> hd r1 = CHR ''.'');
             fp = (if dot then takeWhile is_digit (tl r1) else []);
             r2 = (if dot then dropWhile is_digit (tl r1) else r1);
             m = of_nat (digits_val 10 ip) + of_nat (digits_val 10 fp) / 10 ^ length fp;
             v = scale10 m (exponent_of r2)
         in if ip = [] \<and> fp = [] then NaN else Num (if neg then - v else v)))"

section \<open>The list request and its descriptor\<close>

text \<open>
  \<^verbatim>\<open>req.query\<close> is a mapping from parameter names to strings. A value is truthy when it
  is present and not the empty string.
\<close>

type_synonym params = "string \<rightharpoonup> string"

definition truthy :: "string option \<Rightarrow> bool" where
  "truthy v = (case v of None \<Rightarrow> False | Some s \<Rightarrow> s \<noteq> [])"

text \<open>A missing parameter is \<^verbatim>\<open>undefined\<close>, which \<^verbatim>\<open>parseInt\<close> first turns into the string
  \<^verbatim>\<open>"undefined"\<close>.\<close>

definition to_string :: "string option \<Rightarrow> string" where
  "to_string v = (case v of None \<Rightarrow> ''undefined'' | Some s \<Rightarrow> s)"

text \<open>\<^verbatim>\<open>n || d\<close> on a number: NaN and 0 are falsy and give the default.\<close>

definition or_default :: "int option \<Rightarrow> int \<Rightarrow> int" where
  "or_default n d = (case n of None \<Rightarrow> d | Some k \<Rightarrow> if k = 0 then d else k)"

record price_filter =
  gte :: "jsnum option"
  lte :: "jsnum option"

record query_obj =
  q_category :: "string option"
  q_price :: "price_filter option"

datatype sort_dir = Asc | Desc

record descriptor =
  query :: query_obj
  sort_obj :: "sort_dir option"
  page :: int
  limit :: int
  skip :: int

text \<open>The query object, built as lines 9 to 25 of the handler do.\<close>

definition build_query :: "params \<Rightarrow> query_obj" where
  "build_query rq =
     \<lparr> q_category = (if truthy (rq ''category'') then rq ''category'' else None),
       q_price =
         (if truthy (rq ''minPrice'') \<or> truthy (rq ''maxPrice'') then
            Some \<lparr> gte = (if truthy (rq ''minPrice'')
                          then Some (parseFloat (the (rq ''minPrice''))) else None),
                   lte = (if truthy (rq ''maxPrice'')
                          then Some (parseFloat (the (rq ''maxPrice''))) else None) \<rparr>
          else None) \<rparr>"

text \<open>The sort object of lines 33 to 40: \<open>Asc\<close> stands for \<^verbatim>\<open>{price: 1}\<close>, \<open>Desc\<close> for
  \<^verbatim>\<open>{price: -1}\<close>, \<open>None\<close> for the empty object.\<close>

definition build_sort :: "params \<Rightarrow> sort_dir option" where
  "build_sort rq =
     (if truthy (rq ''sortBy'') then
        (if rq ''sortBy'' = Some ''price_asc'' then Some Asc
         else if rq ''sortBy'' = Some ''price_desc'' then Some Desc
         else None)
      else None)"

definition build_descriptor :: "params \<Rightarrow> descriptor" where
  "build_descriptor rq =
     (let p = or_default (parseInt (to_string (rq ''page''))) 1;
          l = or_default (parseInt (to_string (rq ''limit''))) 10
      in \<lparr> query = build_query rq, sort_obj = build_sort rq,
           page = p, limit = l, skip = (p - 1) * l \<rparr>)"

section \<open>Records, faults and responses\<close>

text \<open>
  A stored product, with the attributes of the schema listed in the README. The identifier
  is the text of the storage engine's key, the price is the exact value of the stored number
  and the creation time is a count of milliseconds.
\<close>

record product =
  pid :: string
  name :: string
  description :: string
  price :: rat
  category :: string
  inStock :: bool
  tags :: "string list"
  createdAt :: int

text \<open>A value of a JSON request body; \<^verbatim>\<open>req.body\<close> is an object, a mapping from keys to
  values, and a key that is missing reads as \<^verbatim>\<open>undefined\<close>, here \<open>None\<close>.\<close>

datatype json =
    JNull
  | JBool bool
  | JNumber rat
  | JString string
  | JArray "json list"
  | JObject "(string \<times> json) list"

type_synonym body = "string \<rightharpoonup> json"

text \<open>
  What a call of the storage client can throw: a validation error, a cast error (a value
  that is not of the type of its path, such as a malformed identifier), or any other fault of
  the driver or the connection. Each carries the text of \<^verbatim>\<open>error.message\<close>.
\<close>

datatype fault = ValidationError string | CastError string | StorageFault string

fun message :: "fault \<Rightarrow> string" where
  "message (ValidationError m) = m"
| "message (CastError m) = m"
| "message (StorageFault m) = m"

datatype payload = Products "product list" | Single product | Message string

record response =
  status :: nat
  payload :: payload

section \<open>The five route handlers\<close>

text \<open>
  Each handler is the body of one route of \<^verbatim>\<open>routes/productRoutes.js\<close>. The call it makes
  on the \<^verbatim>\<open>Product\<close> model is a parameter: a function that returns the value the awaited
  call resolves to, or the fault it rejects with, and, for a call that writes, the contents
  of the collection afterwards. A fault leaves the collection as it was.
\<close>

text \<open>\<^verbatim>\<open>router.get("/")\<close>, lines 6 to 52.\<close>

definition get_all ::
  "(query_obj \<Rightarrow> sort_dir option \<Rightarrow> int \<Rightarrow> int \<Rightarrow> fault + product list) \<Rightarrow> params \<Rightarrow> response" where
  "get_all find_call rq =
     (let d = build_descriptor rq in
      case find_call (query d) (sort_obj d) (skip d) (limit d) of
        Inr products \<Rightarrow> \<lparr> status = 200, payload = Products products \<rparr>
      | Inl error \<Rightarrow> \<lparr> status = 500, payload = Message (message error) \<rparr>)"

text \<open>\<^verbatim>\<open>router.get("/:id")\<close>, lines 55 to 65.\<close>

definition get_by_id :: "(string \<Rightarrow> fault + product option) \<Rightarrow> string \<Rightarrow> response" where
  "get_by_id findById ident =
     (case findById ident of
        Inr None \<Rightarrow> \<lparr> status = 404, payload = Message ''Product not found'' \<rparr>
      | Inr (Some p) \<Rightarrow> \<lparr> status = 200, payload = Single p \<rparr>
      | Inl error \<Rightarrow> \<lparr> status = 500, payload = Message (message error) \<rparr>)"

text \<open>The object handed to \<^verbatim>\<open>new Product\<close> on lines 70 to 77: six properties, each read
  from the property of the same name of the body.\<close>

record candidate =
  c_name :: "json option"
  c_description :: "json option"
  c_price :: "json option"
  c_category :: "json option"
  c_inStock :: "json option"
  c_tags :: "json option"

definition candidate_of :: "body \<Rightarrow> candidate" where
  "candidate_of b =
     \<lparr> c_name = b ''name'', c_description = b ''description'', c_price = b ''price'',
       c_category = b ''category'', c_inStock = b ''inStock'', c_tags = b ''tags'' \<rparr>"

text \<open>\<^verbatim>\<open>router.post("/")\<close>, lines 68 to 84.\<close>

definition post_product ::
  "(candidate \<Rightarrow> 'st \<Rightarrow> fault + product \<times> 'st) \<Rightarrow> body \<Rightarrow> 'st \<Rightarrow> response \<times> 'st" where
  "post_product save b st =
     (case save (candidate_of b) st of
        Inr (newProduct, st') \<Rightarrow> (\<lparr> status = 201, payload = Single newProduct \<rparr>, st')
      | Inl error \<Rightarrow> (\<lparr> status = 400, payload = Message (message error) \<rparr>, st))"

text \<open>\<^verbatim>\<open>router.put("/:id")\<close>, lines 87 to 103: the whole body goes to the update call.\<close>

definition put_product ::
  "(string \<Rightarrow> body \<Rightarrow> 'st \<Rightarrow> fault + product option \<times> 'st) \<Rightarrow> string \<Rightarrow> body \<Rightarrow> 'st
     \<Rightarrow> response \<times> 'st" where
  "put_product findByIdAndUpdate ident b st =
     (case findByIdAndUpdate ident b st of
        Inr (None, st') \<Rightarrow> (\<lparr> status = 404, payload = Message ''Product not found'' \<rparr>, st')
      | Inr (Some updatedProduct, st') \<Rightarrow> (\<lparr> status = 200, payload = Single updatedProduct \<rparr>, st')
      | Inl error \<Rightarrow> (\<lparr> status = 400, payload = Message (message error) \<rparr>, st))"

text \<open>\<^verbatim>\<open>router.delete("/:id")\<close>, lines 106 to 118.\<close>

definition delete_product ::
  "(string \<Rightarrow> 'st \<Rightarrow> fault + product option \<times> 'st) \<Rightarrow> string \<Rightarrow> 'st \<Rightarrow> response \<times> 'st" where
  "delete_product findByIdAndDelete ident st =
     (case findByIdAndDelete ident st of
        Inr (None, st') \<Rightarrow> (\<lparr> status = 404, payload = Message ''Product not found'' \<rparr>, st')
      | Inr (Some deletedProduct, st') \<Rightarrow>
          (\<lparr> status = 200, payload = Message ''Product deleted successfully'' \<rparr>, st')
      | Inl error \<Rightarrow> (\<lparr> status = 500, payload = Message (message error) \<rparr>, st))"

section \<open>The storage client\<close>

text \<open>
  \<^verbatim>\<open>models/Product.js\<close> and the library behind it are not among the sources, so the calls
  on the \<^verbatim>\<open>Product\<close> model are modelled from the specification. The collection is the list
  of its records in the engine's natural order.
\<close>

text \<open>Modelled from the spec: the inclusive order of the price bounds (section 4.1), on
  JavaScript numbers, where every comparison with NaN is false.\<close>

fun num_le :: "jsnum \<Rightarrow> jsnum \<Rightarrow> bool" where
  "num_le NaN _ = False"
| "num_le _ NaN = False"
| "num_le NegInf _ = True"
| "num_le _ PosInf = True"
| "num_le (Num a) (Num b) = (a \<le> b)"
| "num_le _ _ = False"

text \<open>
  Modelled from the spec: the filter of the storage engine's find (section 4.1, output
  guarantee): \<^verbatim>\<open>categoryEquals\<close>, if set, by exact equality, and the price within the two
  bounds, each applied only if set, both inclusive.
\<close>

definition matches :: "query_obj \<Rightarrow> product \<Rightarrow> bool" where
  "matches q r \<longleftrightarrow>
     (case q_category q of None \<Rightarrow> True | Some c \<Rightarrow> category r = c) \<and>
     (case q_price q of
        None \<Rightarrow> True
      | Some f \<Rightarrow>
          (case gte f of None \<Rightarrow> True | Some a \<Rightarrow> num_le a (Num (price r))) \<and>
          (case lte f of None \<Rightarrow> True | Some b \<Rightarrow> num_le (Num (price r)) b))"

text \<open>
  Modelled from the spec: the sort of the storage engine's find: ascending or descending
  price, or the natural order. Records of equal price keep their natural order, which the
  engine does not promise.
\<close>

definition order_by :: "sort_dir option \<Rightarrow> product list \<Rightarrow> product list" where
  "order_by s rs =
     (case s of
        None \<Rightarrow> rs
      | Some Asc \<Rightarrow> sort_key price rs
      | Some Desc \<Rightarrow> sort_key (\<lambda>r. - price r) rs)"

text \<open>
  Modelled from the spec: the window of the storage engine's find: \<open>skip\<close> records are
  dropped and at most \<open>limit\<close> are kept. The specification leaves a count below zero to the
  engine; the model follows MongoDB there, which keeps as many records as the magnitude of a
  negative limit and takes a limit of 0 as no limit. A negative skip is refused in
  \<open>find_model\<close>.
\<close>

definition window :: "int \<Rightarrow> int \<Rightarrow> product list \<Rightarrow> product list" where
  "window sk lm rs =
     (let rest = drop (nat sk) rs in if lm = 0 then rest else take (nat \<bar>lm\<bar>) rest)"

text \<open>Modelled from the spec: a price bound that is set and is not a number; the descriptor
  of section 3 has none, the query object of the handler can.\<close>

definition nan_bound :: "query_obj \<Rightarrow> bool" where
  "nan_bound q \<longleftrightarrow>
     (case q_price q of None \<Rightarrow> False | Some f \<Rightarrow> gte f = Some NaN \<or> lte f = Some NaN)"

text \<open>
  Modelled from the spec: find-with-filter-sort-skip-limit of the storage engine client
  (section 6), the call \<^verbatim>\<open>Product.find(query).sort(sort).skip(skip).limit(limit)\<close>: the
  records that match, sorted, then window-sliced. Two inputs that the specification does not
  settle end in a fault, as they do in the library: a bound that is NaN is not a number of
  the price path (a cast error), and a negative skip is refused by the engine.
\<close>

definition find_model ::
  "product list \<Rightarrow> query_obj \<Rightarrow> sort_dir option \<Rightarrow> int \<Rightarrow> int \<Rightarrow> fault + product list" where
  "find_model docs q s sk lm =
     (if nan_bound q then Inl (CastError ''Cast to Number failed at path price'')
      else if sk < 0 then Inl (StorageFault ''Skip value must be non-negative'')
      else Inr (window sk lm (order_by s (filter (matches q) docs))))"

text \<open>
  Modelled from the spec: syntactic validity of an identifier (section 4.2, read-one). The
  identifiers of the README's examples are 24 hexadecimal digits.
\<close>

definition valid_id :: "string \<Rightarrow> bool" where
  "valid_id i \<longleftrightarrow> length i = 24 \<and> list_all is_hex_digit i"

text \<open>Modelled from the spec: find-by-id of the storage engine client: the record with the
  identifier, none when there is no such record, a fault on a malformed identifier.\<close>

definition findById_model :: "product list \<Rightarrow> string \<Rightarrow> fault + product option" where
  "findById_model docs i =
     (if \<not> valid_id i then Inl (CastError ''Cast to ObjectId failed at path _id'')
      else Inr (find (\<lambda>r. pid r = i) docs))"

text \<open>Modelled from the spec: removal of the one record with the identifier (section 4.2,
  delete), the first in the collection.\<close>

fun delete_first :: "string \<Rightarrow> product list \<Rightarrow> product list" where
  "delete_first i [] = []"
| "delete_first i (r # rs) = (if pid r = i then rs else r # delete_first i rs)"

text \<open>Modelled from the spec: delete-by-id of the storage engine client (section 4.2,
  delete): the record is removed for good and handed back; none when there is no such
  record.\<close>

definition findByIdAndDelete_model ::
  "string \<Rightarrow> product list \<Rightarrow> fault + product option \<times> product list" where
  "findByIdAndDelete_model i docs =
     (if \<not> valid_id i then Inl (CastError ''Cast to ObjectId failed at path _id'')
      else case find (\<lambda>r. pid r = i) docs of
             None \<Rightarrow> Inr (None, docs)
           | Some r \<Rightarrow> Inr (Some r, delete_first i docs))"

text \<open>The first fault of two steps in a row.\<close>

definition and_then :: "fault + 'a \<Rightarrow> ('a \<Rightarrow> fault + 'b) \<Rightarrow> fault + 'b" where
  "and_then m f = (case m of Inl e \<Rightarrow> Inl e | Inr x \<Rightarrow> f x)"

text \<open>
  Modelled from the spec: the constraints of the data model (section 3) on one field of a
  partial record. A field that the body does not hold keeps its old value; a required text
  is not empty, the price is greater than 0, \<^verbatim>\<open>inStock\<close> is a boolean and \<^verbatim>\<open>tags\<close> a
  sequence of texts. A value of another shape is malformed input.
\<close>

definition text_field :: "string \<Rightarrow> json option \<Rightarrow> string \<Rightarrow> fault + string" where
  "text_field path v old =
     (case v of
        None \<Rightarrow> Inr old
      | Some (JString s) \<Rightarrow>
          if s = [] then Inl (ValidationError (path @ '' is required'')) else Inr s
      | Some _ \<Rightarrow> Inl (ValidationError (path @ '' is malformed'')))"

text \<open>Modelled from the spec: the price of a partial record, strictly greater than 0
  (section 3).\<close>

definition price_field :: "json option \<Rightarrow> rat \<Rightarrow> fault + rat" where
  "price_field v old =
     (case v of
        None \<Rightarrow> Inr old
      | Some (JNumber x) \<Rightarrow>
          if 0 < x then Inr x else Inl (ValidationError ''Price must be greater than 0'')
      | Some _ \<Rightarrow> Inl (ValidationError ''price is malformed''))"

text \<open>Modelled from the spec: \<^verbatim>\<open>inStock\<close> of a partial record, a boolean (section 3).\<close>

definition bool_field :: "json option \<Rightarrow> bool \<Rightarrow> fault + bool" where
  "bool_field v old =
     (case v of
        None \<Rightarrow> Inr old
      | Some (JBool x) \<Rightarrow> Inr x
      | Some _ \<Rightarrow> Inl (ValidationError ''inStock is malformed''))"

text \<open>Modelled from the spec: \<^verbatim>\<open>tags\<close> of a partial record, an ordered sequence of text
  (section 3).\<close>

fun text_of :: "json \<Rightarrow> string option" where
  "text_of (JString s) = Some s"
| "text_of _ = None"

definition tags_field :: "json option \<Rightarrow> string list \<Rightarrow> fault + string list" where
  "tags_field v old =
     (case v of
        None \<Rightarrow> Inr old
      | Some (JArray js) \<Rightarrow>
          (case those (map text_of js) of
             Some ts \<Rightarrow> Inr ts
           | None \<Rightarrow> Inl (ValidationError ''tags is malformed''))
      | Some _ \<Rightarrow> Inl (ValidationError ''tags is malformed''))"

text \<open>
  Modelled from the spec: the merge of a partial record into a stored one (section 4.2,
  update): any subset of the six mutable fields, the merged result validated. The
  identifier and the creation time are not among the mutable fields (section 3), and no other
  key of the body is read.
\<close>

definition merge :: "product \<Rightarrow> body \<Rightarrow> fault + product" where
  "merge r b =
     and_then (text_field ''name'' (b ''name'') (name r)) (\<lambda>n.
     and_then (text_field ''description'' (b ''description'') (description r)) (\<lambda>d.
     and_then (price_field (b ''price'') (price r)) (\<lambda>p.
     and_then (text_field ''category'' (b ''category'') (category r)) (\<lambda>c.
     and_then (bool_field (b ''inStock'') (inStock r)) (\<lambda>s.
     and_then (tags_field (b ''tags'') (tags r)) (\<lambda>t.
       Inr (r\<lparr> name := n, description := d, price := p, category := c,
               inStock := s, tags := t \<rparr>)))))))"

text \<open>Modelled from the spec: the update in place of the one record with the identifier
  (section 3, lifecycle), the first in the collection.\<close>

fun update_first :: "string \<Rightarrow> product \<Rightarrow> product list \<Rightarrow> product list" where
  "update_first i r' [] = []"
| "update_first i r' (r # rs) = (if pid r = i then r' # rs else r # update_first i r' rs)"

text \<open>
  Modelled from the spec: update-by-id-with-validation of the storage engine client
  (section 4.2, update), the call \<^verbatim>\<open>Product.findByIdAndUpdate\<close> with the options
  \<^verbatim>\<open>new\<close> and \<^verbatim>\<open>runValidators\<close>: the record after the update, none when there is no record
  with the identifier, a fault when the merged record is not valid.
\<close>

definition findByIdAndUpdate_model ::
  "string \<Rightarrow> body \<Rightarrow> product list \<Rightarrow> fault + product option \<times> product list" where
  "findByIdAndUpdate_model i b docs =
     (if \<not> valid_id i then Inl (CastError ''Cast to ObjectId failed at path _id'')
      else case find (\<lambda>r. pid r = i) docs of
             None \<Rightarrow> Inr (None, docs)
           | Some r \<Rightarrow> and_then (merge r b) (\<lambda>r'. Inr (Some r', update_first i r' docs)))"

section \<open>Readings of a descriptor and sample data\<close>

text \<open>The lower and the upper price bound that a query object carries, if any.\<close>

definition lower_bound :: "query_obj \<Rightarrow> jsnum option" where
  "lower_bound q = (case q_price q of None \<Rightarrow> None | Some f \<Rightarrow> gte f)"

definition upper_bound :: "query_obj \<Rightarrow> jsnum option" where
  "upper_bound q = (case q_price q of None \<Rightarrow> None | Some f \<Rightarrow> lte f)"

text \<open>A small collection in the style of the README's examples, for the concrete instances
  below.\<close>

definition sample :: "string \<Rightarrow> string \<Rightarrow> string \<Rightarrow> rat \<Rightarrow> product" where
  "sample i n c p =
     \<lparr> pid = i, name = n, description = n, price = p, category = c, inStock = True,
       tags = [], createdAt = 1768694400000 \<rparr>"

definition catalogue :: "product list" where
  "catalogue =
     [sample ''507f1f77bcf86cd799439011'' ''Laptop'' ''Electronics'' (99999 / 100),
      sample ''507f1f77bcf86cd799439012'' ''Wireless Mouse'' ''Electronics'' (2999 / 100),
      sample ''507f1f77bcf86cd799439013'' ''Desk'' ''Furniture'' 250,
      sample ''507f1f77bcf86cd799439014'' ''Keyboard'' ''Electronics'' 50,
      sample ''507f1f77bcf86cd799439015'' ''Monitor'' ''Electronics'' 500,
      sample ''507f1f77bcf86cd799439016'' ''Chair'' ''Furniture'' 120,
      sample ''507f1f77bcf86cd799439017'' ''Cable'' ''Electronics'' 5]"

section \<open>The parsers on the inputs used below\<close>

lemma parseInt_undefined: "parseInt ''undefined'' = None"
  by code_simp

lemma parseInt_zero: "parseInt ''0'' = Some 0"
  by code_simp


lemma parseInt_five: "parseInt ''5'' = Some 5"
  by code_simp

lemma parseInt_minus_three: "parseInt ''-3'' = Some (- 3)"
  by code_simp

lemma parseFloat_abc: "parseFloat ''abc'' = NaN"
  by code_simp

lemma parseFloat_fifty: "parseFloat ''50'' = Num 50"
  by code_simp

lemma parseFloat_five_hundred: "parseFloat ''500'' = Num 500"
  by code_simp

section \<open>The query builder\<close>

text \<open>
  C1, as the code has it. A \<^verbatim>\<open>minPrice\<close> (or \<^verbatim>\<open>maxPrice\<close>) that is present and not empty
  always puts its bound into the price filter, with the value that \<^verbatim>\<open>parseFloat\<close> gives: a
  text that does not parse leaves the bound NaN in the descriptor, which is then not the
  descriptor of the request without the parameter. The bound is absent only when the
  parameter is absent or the empty string.
\<close>

theorem unparsed_bound_is_NaN:
  "lower_bound (query (build_descriptor rq)) =
     (case rq ''minPrice'' of
        None \<Rightarrow> None
      | Some v \<Rightarrow> if v = [] then None else Some (parseFloat v)) \<and>
   upper_bound (query (build_descriptor rq)) =
     (case rq ''maxPrice'' of
        None \<Rightarrow> None
      | Some v \<Rightarrow> if v = [] then None else Some (parseFloat v)) \<and>
   (\<forall>v. rq ''minPrice'' = Some v \<and> v \<noteq> [] \<and> parseFloat v = NaN \<longrightarrow>
      lower_bound (query (build_descriptor rq)) = Some NaN \<and>
      build_descriptor rq \<noteq> build_descriptor (rq(''minPrice'' := None))) \<and>
   (\<forall>v. rq ''maxPrice'' = Some v \<and> v \<noteq> [] \<and> parseFloat v = NaN \<longrightarrow>
      upper_bound (query (build_descriptor rq)) = Some NaN \<and>
      build_descriptor rq \<noteq> build_descriptor (rq(''maxPrice'' := None)))"
  by (auto simp: build_descriptor_def build_query_def truthy_def Let_def
      lower_bound_def upper_bound_def split: option.splits)

theorem unparsed_bound_is_NaN_witness:
  "[''minPrice'' \<mapsto> ''abc''] ''minPrice'' = Some ''abc'' \<and> ''abc'' \<noteq> [] \<and>
   parseFloat ''abc'' = NaN \<and>
   lower_bound (query (build_descriptor [''minPrice'' \<mapsto> ''abc''])) = Some NaN \<and>
   build_descriptor [''minPrice'' \<mapsto> ''abc''] \<noteq>
     build_descriptor ([''minPrice'' \<mapsto> ''abc''](''minPrice'' := None))"
  using unparsed_bound_is_NaN [of "[''minPrice'' \<mapsto> ''abc'']"] parseFloat_abc
  by simp

text \<open>C1 as stated fails: \<^verbatim>\<open>minPrice=abc\<close> does not parse, and the descriptor holds a lower
  bound, which the descriptor of the request with no parameter does not.\<close>

theorem unparsed_minPrice_counterexample:
  "parseFloat ''abc'' = NaN \<and>
   lower_bound (query (build_descriptor [''minPrice'' \<mapsto> ''abc''])) = Some NaN \<and>
   lower_bound (query (build_descriptor Map.empty)) = None \<and>
   build_descriptor [''minPrice'' \<mapsto> ''abc''] \<noteq> build_descriptor Map.empty"
  by (simp add: parseFloat_abc build_descriptor_def build_query_def truthy_def Let_def
      lower_bound_def)

text \<open>
  C3, as the code has it. The page is parsed as an integer and is 1 when the parameter is
  absent, does not parse, or parses to 0, which is falsy. No lower bound is applied: a
  negative page is kept, the skip count is \<open>(page - 1) * limit\<close>, and it is negative when the
  page is negative and the limit positive.
\<close>

theorem page_default_and_negative:
  "page (build_descriptor rq) =
     (case rq ''page'' of
        None \<Rightarrow> 1
      | Some v \<Rightarrow> (case parseInt v of None \<Rightarrow> 1 | Some n \<Rightarrow> if n = 0 then 1 else n)) \<and>
   skip (build_descriptor rq) = (page (build_descriptor rq) - 1) * limit (build_descriptor rq) \<and>
   (\<forall>v n. rq ''page'' = Some v \<and> parseInt v = Some n \<and> n < 0 \<longrightarrow>
      page (build_descriptor rq) = n \<and>
      (0 < limit (build_descriptor rq) \<longrightarrow> skip (build_descriptor rq) < 0))"
  by (auto simp: build_descriptor_def to_string_def or_default_def Let_def parseInt_undefined
      mult_less_0_iff split: option.splits)

theorem page_default_and_negative_witness:
  "[''page'' \<mapsto> ''-3'', ''limit'' \<mapsto> ''5''] ''page'' = Some ''-3'' \<and>
   parseInt ''-3'' = Some (- 3) \<and> (- 3 :: int) < 0 \<and>
   page (build_descriptor [''page'' \<mapsto> ''-3'', ''limit'' \<mapsto> ''5'']) = - 3 \<and>
   0 < limit (build_descriptor [''page'' \<mapsto> ''-3'', ''limit'' \<mapsto> ''5'']) \<and>
   skip (build_descriptor [''page'' \<mapsto> ''-3'', ''limit'' \<mapsto> ''5'']) < 0"
proof -
  have l: "limit (build_descriptor [''page'' \<mapsto> ''-3'', ''limit'' \<mapsto> ''5'']) = 5"
    by (simp add: build_descriptor_def to_string_def or_default_def Let_def parseInt_five)
  show ?thesis
    using page_default_and_negative [of "[''page'' \<mapsto> ''-3'', ''limit'' \<mapsto> ''5'']"]
      parseInt_minus_three l
    by simp
qed

text \<open>C3 as stated fails at \<^verbatim>\<open>page=0\<close>: the text parses to 0 and the page is 1, not 0.\<close>

theorem page_zero_counterexample:
  "parseInt ''0'' = Some 0 \<and>
   page (build_descriptor [''page'' \<mapsto> ''0'']) = 1 \<and>
   page (build_descriptor [''page'' \<mapsto> ''0'']) \<noteq> 0"
  by (simp add: parseInt_zero build_descriptor_def to_string_def or_default_def Let_def)

text \<open>
  C9. A limit given as the string \<^verbatim>\<open>"0"\<close> parses to 0, which is falsy, so the page size
  is the default 10; the page size of a descriptor is never 0.
\<close>

theorem limit_zero_is_default:
  "(rq ''limit'' = Some ''0'' \<longrightarrow> limit (build_descriptor rq) = 10) \<and>
   limit (build_descriptor rq) \<noteq> 0"
  by (auto simp: build_descriptor_def to_string_def or_default_def Let_def parseInt_zero
      split: option.splits)

theorem limit_zero_is_default_witness:
  "[''limit'' \<mapsto> ''0''] ''limit'' = Some ''0'' \<and>
   limit (build_descriptor [''limit'' \<mapsto> ''0'']) = 10 \<and>
   limit (build_descriptor [''limit'' \<mapsto> ''0'']) \<noteq> 0"
  using limit_zero_is_default [of "[''limit'' \<mapsto> ''0'']"]
  by simp

section \<open>Facts about the storage client\<close>

lemma set_window: "set (window sk lm rs) \<subseteq> set rs"
  by (auto simp: window_def Let_def dest: in_set_takeD in_set_dropD)

lemma set_order_by: "set (order_by s rs) = set rs"
  by (simp add: order_by_def split: option.splits sort_dir.splits)


lemma map_window:
  "map f (window sk lm rs) =
     (let rest = drop (nat sk) (map f rs) in if lm = 0 then rest else take (nat \<bar>lm\<bar>) rest)"
  by (simp add: window_def Let_def take_map drop_map)

lemma sorted_wrt_window: "sorted_wrt P (map f rs) \<Longrightarrow> sorted_wrt P (map f (window sk lm rs))"
  by (simp add: map_window Let_def)

lemma sorted_order_asc: "sorted_wrt (\<lambda>x y. x \<le> y) (map price (order_by (Some Asc) rs))"
  by (simp add: order_by_def)

lemma sorted_order_desc: "sorted_wrt (\<lambda>x y. y \<le> x) (map price (order_by (Some Desc) rs))"
proof -
  have "sorted (map (\<lambda>r. - price r) (sort_key (\<lambda>r. - price r) rs))"
    by (rule sorted_sort_key)
  then show ?thesis
    by (simp add: order_by_def sorted_wrt_map)
qed

text \<open>A list response of status 200 holds the window of the sorted matches.\<close>

lemma get_all_ok:
  "get_all (find_model docs) rq = \<lparr> status = 200, payload = Products ps \<rparr> \<Longrightarrow>
   ps = window (skip (build_descriptor rq)) (limit (build_descriptor rq))
          (order_by (build_sort rq) (filter (matches (build_query rq)) docs))"
  by (auto simp: get_all_def find_model_def build_descriptor_def Let_def split: if_splits)


lemma returned_matches:
  assumes "get_all (find_model docs) rq = \<lparr> status = 200, payload = Products ps \<rparr>"
    and "r \<in> set ps"
  shows "r \<in> set docs \<and> matches (build_query rq) r"
proof -
  have "r \<in> set (filter (matches (build_query rq)) docs)"
    using get_all_ok [OF assms(1)] assms(2) set_window set_order_by by blast
  then show ?thesis by simp
qed

lemma matches_lower:
  "matches (build_query rq) r \<Longrightarrow> rq ''minPrice'' = Some sa \<Longrightarrow> sa \<noteq> [] \<Longrightarrow>
   parseFloat sa = Num a \<Longrightarrow> a \<le> price r"
  by (simp add: matches_def build_query_def truthy_def)

lemma matches_upper:
  "matches (build_query rq) r \<Longrightarrow> rq ''maxPrice'' = Some sb \<Longrightarrow> sb \<noteq> [] \<Longrightarrow>
   parseFloat sb = Num b \<Longrightarrow> price r \<le> b"
  by (simp add: matches_def build_query_def truthy_def)

lemma matches_no_lower:
  "\<not> truthy (rq ''minPrice'') \<Longrightarrow> rq ''maxPrice'' = Some sb \<Longrightarrow> sb \<noteq> [] \<Longrightarrow>
   parseFloat sb = Num b \<Longrightarrow>
   matches (build_query rq) r \<longleftrightarrow>
     (truthy (rq ''category'') \<longrightarrow> rq ''category'' = Some (category r)) \<and> price r \<le> b"
  by (auto simp: matches_def build_query_def truthy_def split: option.splits)

lemma matches_no_upper:
  "\<not> truthy (rq ''maxPrice'') \<Longrightarrow> rq ''minPrice'' = Some sa \<Longrightarrow> sa \<noteq> [] \<Longrightarrow>
   parseFloat sa = Num a \<Longrightarrow>
   matches (build_query rq) r \<longleftrightarrow>
     (truthy (rq ''category'') \<longrightarrow> rq ''category'' = Some (category r)) \<and> a \<le> price r"
  by (auto simp: matches_def build_query_def truthy_def split: option.splits)

lemma find_pid_Some: "i \<in> pid ` set docs \<Longrightarrow> \<exists>r. find (\<lambda>r. pid r = i) docs = Some r"
  by (cases "find (\<lambda>r. pid r = i) docs") (auto simp: find_None_iff)

lemma find_pid_None: "i \<notin> pid ` set docs \<Longrightarrow> find (\<lambda>r. pid r = i) docs = None"
  by (auto simp: find_None_iff)

lemma delete_first_removes: "distinct (map pid docs) \<Longrightarrow> i \<notin> pid ` set (delete_first i docs)"
proof (induction docs)
  case Nil
  then show ?case by simp
next
  case (Cons r rs)
  then show ?case by (cases "pid r = i") auto
qed

lemma and_then_Inr: "and_then m f = Inr y \<Longrightarrow> \<exists>x. m = Inr x \<and> f x = Inr y"
  by (cases m) (simp_all add: and_then_def)

lemma merge_frame: "merge r b = Inr r' \<Longrightarrow> pid r' = pid r \<and> createdAt r' = createdAt r"
  unfolding merge_def by (auto dest!: and_then_Inr)

lemma update_first_frame:
  "find (\<lambda>r. pid r = i) docs = Some r \<Longrightarrow> pid r' = pid r \<Longrightarrow> createdAt r' = createdAt r \<Longrightarrow>
   map pid (update_first i r' docs) = map pid docs \<and>
   map createdAt (update_first i r' docs) = map createdAt docs \<and>
   find (\<lambda>r. pid r = i) (update_first i r' docs) = Some r'"
proof (induction docs)
  case Nil
  then show ?case by simp
next
  case (Cons x xs)
  then show ?case by (cases "pid x = i") auto
qed

lemma update_model_cases:
  assumes "findByIdAndUpdate_model i b docs = Inr (out, docs')"
  shows "(out = None \<and> docs' = docs) \<or>
         (\<exists>r r'. find (\<lambda>r. pid r = i) docs = Some r \<and> merge r b = Inr r' \<and> out = Some r' \<and>
                  docs' = update_first i r' docs)"
  using assms
  by (auto simp: findByIdAndUpdate_model_def split: if_splits option.splits dest!: and_then_Inr)

section \<open>Listing: window, price bounds, order\<close>



text \<open>
  C6. For a list request with numeric bounds \<^verbatim>\<open>minPrice=a\<close> and \<^verbatim>\<open>maxPrice=b\<close>, every
  returned record has \<open>a \<le> price \<le> b\<close>, both bounds inclusive. When one bound is omitted
  (or empty) that side is lifted: a record then matches exactly when it has the category, if
  one is asked for, and satisfies the other bound. The returned records are the window of
  the sorted matches.
\<close>

theorem list_price_bounds:
  assumes "get_all (find_model docs) rq = \<lparr> status = 200, payload = Products ps \<rparr>"
  shows "(\<forall>r \<in> set ps.
            (\<forall>sa a. rq ''minPrice'' = Some sa \<and> sa \<noteq> [] \<and> parseFloat sa = Num a \<longrightarrow>
               a \<le> price r) \<and>
            (\<forall>sb b. rq ''maxPrice'' = Some sb \<and> sb \<noteq> [] \<and> parseFloat sb = Num b \<longrightarrow>
               price r \<le> b)) \<and>
         (\<forall>r sb b. \<not> truthy (rq ''minPrice'') \<and> rq ''maxPrice'' = Some sb \<and> sb \<noteq> [] \<and>
              parseFloat sb = Num b \<longrightarrow>
            (matches (build_query rq) r \<longleftrightarrow>
               (truthy (rq ''category'') \<longrightarrow> rq ''category'' = Some (category r)) \<and>
               price r \<le> b)) \<and>
         (\<forall>r sa a. \<not> truthy (rq ''maxPrice'') \<and> rq ''minPrice'' = Some sa \<and> sa \<noteq> [] \<and>
              parseFloat sa = Num a \<longrightarrow>
            (matches (build_query rq) r \<longleftrightarrow>
               (truthy (rq ''category'') \<longrightarrow> rq ''category'' = Some (category r)) \<and>
               a \<le> price r)) \<and>
         ps = window (skip (build_descriptor rq)) (limit (build_descriptor rq))
                (order_by (build_sort rq) (filter (matches (build_query rq)) docs))"
proof (intro conjI ballI allI impI)
  fix r sa a
  assume "r \<in> set ps" and "rq ''minPrice'' = Some sa \<and> sa \<noteq> [] \<and> parseFloat sa = Num a"
  then show "a \<le> price r"
    using returned_matches [OF assms] matches_lower by blast
next
  fix r sb b
  assume "r \<in> set ps" and "rq ''maxPrice'' = Some sb \<and> sb \<noteq> [] \<and> parseFloat sb = Num b"
  then show "price r \<le> b"
    using returned_matches [OF assms] matches_upper by blast
next
  fix r sb b
  assume "\<not> truthy (rq ''minPrice'') \<and> rq ''maxPrice'' = Some sb \<and> sb \<noteq> [] \<and>
    parseFloat sb = Num b"
  then show "matches (build_query rq) r \<longleftrightarrow>
      (truthy (rq ''category'') \<longrightarrow> rq ''category'' = Some (category r)) \<and> price r \<le> b"
    using matches_no_lower by blast
next
  fix r sa a
  assume "\<not> truthy (rq ''maxPrice'') \<and> rq ''minPrice'' = Some sa \<and> sa \<noteq> [] \<and>
    parseFloat sa = Num a"
  then show "matches (build_query rq) r \<longleftrightarrow>
      (truthy (rq ''category'') \<longrightarrow> rq ''category'' = Some (category r)) \<and> a \<le> price r"
    using matches_no_upper by blast
next
  show "ps = window (skip (build_descriptor rq)) (limit (build_descriptor rq))
          (order_by (build_sort rq) (filter (matches (build_query rq)) docs))"
    by (rule get_all_ok [OF assms])
qed

theorem list_price_bounds_witness:
  "get_all (find_model catalogue) [''minPrice'' \<mapsto> ''50'', ''maxPrice'' \<mapsto> ''500''] =
     \<lparr> status = 200,
       payload = Products
         [sample ''507f1f77bcf86cd799439013'' ''Desk'' ''Furniture'' 250,
          sample ''507f1f77bcf86cd799439014'' ''Keyboard'' ''Electronics'' 50,
          sample ''507f1f77bcf86cd799439015'' ''Monitor'' ''Electronics'' 500,
          sample ''507f1f77bcf86cd799439016'' ''Chair'' ''Furniture'' 120] \<rparr> \<and>
   parseFloat ''50'' = Num 50 \<and> parseFloat ''500'' = Num 500 \<and>
   list_all (\<lambda>r. 50 \<le> price r \<and> price r \<le> 500)
     [sample ''507f1f77bcf86cd799439013'' ''Desk'' ''Furniture'' 250,
      sample ''507f1f77bcf86cd799439014'' ''Keyboard'' ''Electronics'' 50,
      sample ''507f1f77bcf86cd799439015'' ''Monitor'' ''Electronics'' 500,
      sample ''507f1f77bcf86cd799439016'' ''Chair'' ''Furniture'' 120]"
proof -
  let ?rq = "[''minPrice'' \<mapsto> ''50'', ''maxPrice'' \<mapsto> ''500'']"
  let ?ps = "[sample ''507f1f77bcf86cd799439013'' ''Desk'' ''Furniture'' 250,
              sample ''507f1f77bcf86cd799439014'' ''Keyboard'' ''Electronics'' 50,
              sample ''507f1f77bcf86cd799439015'' ''Monitor'' ''Electronics'' 500,
              sample ''507f1f77bcf86cd799439016'' ''Chair'' ''Furniture'' 120]"
  have h: "get_all (find_model catalogue) ?rq = \<lparr> status = 200, payload = Products ?ps \<rparr>"
    by code_simp
  have lo: "?rq ''minPrice'' = Some ''50'' \<and> ''50'' \<noteq> [] \<and> parseFloat ''50'' = Num 50"
    by (simp add: parseFloat_fifty)
  have hi: "?rq ''maxPrice'' = Some ''500'' \<and> ''500'' \<noteq> [] \<and> parseFloat ''500'' = Num 500"
    by (simp add: parseFloat_five_hundred)
  have "\<forall>r \<in> set ?ps. 50 \<le> price r \<and> price r \<le> 500"
    using list_price_bounds [OF h] lo hi by blast
  then have "list_all (\<lambda>r. 50 \<le> price r \<and> price r \<le> 500) ?ps"
    unfolding list_all_iff .
  then show ?thesis
    using h lo hi by blast
qed

text \<open>
  C7. The value \<^verbatim>\<open>price_asc\<close> of \<^verbatim>\<open>sortBy\<close> gives ascending price order, \<^verbatim>\<open>price_desc\<close>
  descending price order, and any other value, or none, no explicit ordering: the matches
  stay in the engine's natural order. The returned page is a non-decreasing price sequence
  under \<^verbatim>\<open>price_asc\<close> and a non-increasing one under \<^verbatim>\<open>price_desc\<close>.
\<close>

theorem list_sort_order:
  "(rq ''sortBy'' = Some ''price_asc'' \<longrightarrow> sort_obj (build_descriptor rq) = Some Asc) \<and>
   (rq ''sortBy'' = Some ''price_desc'' \<longrightarrow> sort_obj (build_descriptor rq) = Some Desc) \<and>
   (rq ''sortBy'' \<noteq> Some ''price_asc'' \<and> rq ''sortBy'' \<noteq> Some ''price_desc'' \<longrightarrow>
      sort_obj (build_descriptor rq) = None \<and>
      order_by (sort_obj (build_descriptor rq)) rs = rs) \<and>
   (\<forall>ps. get_all (find_model docs) rq = \<lparr> status = 200, payload = Products ps \<rparr> \<longrightarrow>
      (rq ''sortBy'' = Some ''price_asc'' \<longrightarrow> sorted_wrt (\<lambda>x y. x \<le> y) (map price ps)) \<and>
      (rq ''sortBy'' = Some ''price_desc'' \<longrightarrow> sorted_wrt (\<lambda>x y. y \<le> x) (map price ps)))"
proof -
  have d: "sort_obj (build_descriptor rq) = build_sort rq"
    by (simp add: build_descriptor_def Let_def)
  have a: "rq ''sortBy'' = Some ''price_asc'' \<Longrightarrow> build_sort rq = Some Asc"
    by (simp add: build_sort_def truthy_def)
  have b: "rq ''sortBy'' = Some ''price_desc'' \<Longrightarrow> build_sort rq = Some Desc"
    by (simp add: build_sort_def truthy_def)
  have c: "rq ''sortBy'' \<noteq> Some ''price_asc'' \<and> rq ''sortBy'' \<noteq> Some ''price_desc'' \<Longrightarrow>
      build_sort rq = None"
    by (simp add: build_sort_def)
  have asc: "sorted_wrt (\<lambda>x y. x \<le> y) (map price ps)"
    if "get_all (find_model docs) rq = \<lparr> status = 200, payload = Products ps \<rparr>"
      and "rq ''sortBy'' = Some ''price_asc''" for ps
    using get_all_ok [OF that(1)] a [OF that(2)] sorted_wrt_window [OF sorted_order_asc]
    by simp
  have desc: "sorted_wrt (\<lambda>x y. y \<le> x) (map price ps)"
    if "get_all (find_model docs) rq = \<lparr> status = 200, payload = Products ps \<rparr>"
      and "rq ''sortBy'' = Some ''price_desc''" for ps
    using get_all_ok [OF that(1)] b [OF that(2)] sorted_wrt_window [OF sorted_order_desc]
    by simp
  show ?thesis
    using a b c asc desc by (simp add: d order_by_def)
qed

theorem list_sort_order_witness:
  "[''sortBy'' \<mapsto> ''price_desc'', ''limit'' \<mapsto> ''2''] ''sortBy'' = Some ''price_desc'' \<and>
   get_all (find_model catalogue) [''sortBy'' \<mapsto> ''price_desc'', ''limit'' \<mapsto> ''2''] =
     \<lparr> status = 200,
       payload = Products
         [sample ''507f1f77bcf86cd799439011'' ''Laptop'' ''Electronics'' (99999 / 100),
          sample ''507f1f77bcf86cd799439015'' ''Monitor'' ''Electronics'' 500] \<rparr> \<and>
   sort_obj (build_descriptor [''sortBy'' \<mapsto> ''price_desc'', ''limit'' \<mapsto> ''2'']) = Some Desc \<and>
   sorted_wrt (\<lambda>x y. y \<le> x)
     (map price [sample ''507f1f77bcf86cd799439011'' ''Laptop'' ''Electronics'' (99999 / 100),
                 sample ''507f1f77bcf86cd799439015'' ''Monitor'' ''Electronics'' 500])"
proof -
  let ?rq = "[''sortBy'' \<mapsto> ''price_desc'', ''limit'' \<mapsto> ''2'']"
  let ?ps = "[sample ''507f1f77bcf86cd799439011'' ''Laptop'' ''Electronics'' (99999 / 100),
              sample ''507f1f77bcf86cd799439015'' ''Monitor'' ''Electronics'' 500]"
  have s: "?rq ''sortBy'' = Some ''price_desc''"
    by simp
  have h: "get_all (find_model catalogue) ?rq = \<lparr> status = 200, payload = Products ?ps \<rparr>"
    by code_simp
  have "sort_obj (build_descriptor ?rq) = Some Desc \<and>
        sorted_wrt (\<lambda>x y. y \<le> x) (map price ?ps)"
    using list_sort_order [of ?rq catalogue catalogue] s h by blast
  then show ?thesis
    using s h by blast
qed

section \<open>Update, delete, create and the status of a fault\<close>

text \<open>
  C2. The update operation never changes the identifier or the creation time of a record,
  whatever fields the body holds: the identifiers and the creation times of the collection
  are the same after the request as before, and after a successful update the returned
  record, which is the stored one, has the identifier and the creation time that the record
  had before.
\<close>

theorem update_keeps_id_and_createdAt:
  assumes "put_product findByIdAndUpdate_model i b docs = (resp, docs')"
  shows "map pid docs' = map pid docs \<and> map createdAt docs' = map createdAt docs \<and>
         (\<forall>r'. resp = \<lparr> status = 200, payload = Single r' \<rparr> \<longrightarrow>
            (\<exists>r. find (\<lambda>r. pid r = i) docs = Some r \<and> pid r' = pid r \<and>
                 createdAt r' = createdAt r \<and> find (\<lambda>r. pid r = i) docs' = Some r'))"
proof (cases "findByIdAndUpdate_model i b docs")
  case (Inl e)
  then show ?thesis
    using assms by (auto simp: put_product_def)
next
  case (Inr res)
  obtain out ds where res: "res = (out, ds)"
    by (cases res)
  from update_model_cases [OF Inr [unfolded res]]
  show ?thesis
  proof
    assume "out = None \<and> ds = docs"
    then show ?thesis
      using assms Inr res by (auto simp: put_product_def)
  next
    assume "\<exists>r r'. find (\<lambda>r. pid r = i) docs = Some r \<and> merge r b = Inr r' \<and> out = Some r' \<and>
                  ds = update_first i r' docs"
    then obtain r r' where f: "find (\<lambda>r. pid r = i) docs = Some r"
      and m: "merge r b = Inr r'" and o: "out = Some r'" and d: "ds = update_first i r' docs"
      by blast
    have fr: "pid r' = pid r" "createdAt r' = createdAt r"
      using merge_frame [OF m] by simp_all
    have "resp = \<lparr> status = 200, payload = Single r' \<rparr>" "docs' = ds"
      using assms Inr res o by (auto simp: put_product_def)
    then show ?thesis
      using update_first_frame [OF f fr] f fr d by auto
  qed
qed

theorem update_keeps_id_and_createdAt_witness:
  "put_product findByIdAndUpdate_model ''507f1f77bcf86cd799439012''
     [''price'' \<mapsto> JNumber (2499 / 100), ''inStock'' \<mapsto> JBool False,
      ''createdAt'' \<mapsto> JNumber 0, ''_id'' \<mapsto> JString ''507f1f77bcf86cd799439099'']
     (take 2 catalogue) =
     (\<lparr> status = 200,
        payload = Single ((sample ''507f1f77bcf86cd799439012'' ''Wireless Mouse'' ''Electronics''
                             (2499 / 100))\<lparr> inStock := False \<rparr>) \<rparr>,
      [sample ''507f1f77bcf86cd799439011'' ''Laptop'' ''Electronics'' (99999 / 100),
       (sample ''507f1f77bcf86cd799439012'' ''Wireless Mouse'' ''Electronics''
          (2499 / 100))\<lparr> inStock := False \<rparr>]) \<and>
   map pid [sample ''507f1f77bcf86cd799439011'' ''Laptop'' ''Electronics'' (99999 / 100),
            (sample ''507f1f77bcf86cd799439012'' ''Wireless Mouse'' ''Electronics''
               (2499 / 100))\<lparr> inStock := False \<rparr>] = map pid (take 2 catalogue) \<and>
   map createdAt [sample ''507f1f77bcf86cd799439011'' ''Laptop'' ''Electronics'' (99999 / 100),
            (sample ''507f1f77bcf86cd799439012'' ''Wireless Mouse'' ''Electronics''
               (2499 / 100))\<lparr> inStock := False \<rparr>] = map createdAt (take 2 catalogue)"
proof -
  let ?b = "[''price'' \<mapsto> JNumber (2499 / 100), ''inStock'' \<mapsto> JBool False,
             ''createdAt'' \<mapsto> JNumber 0, ''_id'' \<mapsto> JString ''507f1f77bcf86cd799439099'']"
  let ?r' = "(sample ''507f1f77bcf86cd799439012'' ''Wireless Mouse'' ''Electronics''
                (2499 / 100))\<lparr> inStock := False \<rparr>"
  let ?docs' = "[sample ''507f1f77bcf86cd799439011'' ''Laptop'' ''Electronics'' (99999 / 100), ?r']"
  have h: "put_product findByIdAndUpdate_model ''507f1f77bcf86cd799439012'' ?b (take 2 catalogue) =
      (\<lparr> status = 200, payload = Single ?r' \<rparr>, ?docs')"
    by code_simp
  have "map pid ?docs' = map pid (take 2 catalogue) \<and>
        map createdAt ?docs' = map createdAt (take 2 catalogue)"
    using update_keeps_id_and_createdAt [OF h] by blast
  then show ?thesis
    using h by blast
qed

text \<open>
  C8. For a stored record, deleting its identifier twice in a row gives 200 on the first
  delete and 404 on the second; after the first delete the record is gone for good: no record
  of the collection has the identifier, and reading it gives 404.
\<close>

theorem delete_twice:
  assumes "distinct (map pid docs)" and "valid_id i" and "i \<in> pid ` set docs"
  shows "delete_product findByIdAndDelete_model i docs =
           (\<lparr> status = 200, payload = Message ''Product deleted successfully'' \<rparr>,
            delete_first i docs) \<and>
         delete_product findByIdAndDelete_model i (delete_first i docs) =
           (\<lparr> status = 404, payload = Message ''Product not found'' \<rparr>, delete_first i docs) \<and>
         i \<notin> pid ` set (delete_first i docs) \<and>
         get_by_id (findById_model (delete_first i docs)) i =
           \<lparr> status = 404, payload = Message ''Product not found'' \<rparr>"
proof -
  obtain r where r: "find (\<lambda>r. pid r = i) docs = Some r"
    using find_pid_Some [OF assms(3)] by blast
  have gone: "find (\<lambda>r. pid r = i) (delete_first i docs) = None"
    using delete_first_removes [OF assms(1)] by (rule find_pid_None)
  have first: "delete_product findByIdAndDelete_model i docs =
      (\<lparr> status = 200, payload = Message ''Product deleted successfully'' \<rparr>, delete_first i docs)"
    using assms(2) r by (simp add: delete_product_def findByIdAndDelete_model_def)
  have second: "delete_product findByIdAndDelete_model i (delete_first i docs) =
      (\<lparr> status = 404, payload = Message ''Product not found'' \<rparr>, delete_first i docs)"
    using assms(2) gone by (simp add: delete_product_def findByIdAndDelete_model_def)
  have read: "get_by_id (findById_model (delete_first i docs)) i =
      \<lparr> status = 404, payload = Message ''Product not found'' \<rparr>"
    using assms(2) gone by (simp add: get_by_id_def findById_model_def)
  show ?thesis
    using first second read delete_first_removes [OF assms(1)] by simp
qed

theorem delete_twice_witness:
  "distinct (map pid (take 2 catalogue)) \<and> valid_id ''507f1f77bcf86cd799439012'' \<and>
   ''507f1f77bcf86cd799439012'' \<in> pid ` set (take 2 catalogue) \<and>
   delete_first ''507f1f77bcf86cd799439012'' (take 2 catalogue) =
     [sample ''507f1f77bcf86cd799439011'' ''Laptop'' ''Electronics'' (99999 / 100)] \<and>
   delete_product findByIdAndDelete_model ''507f1f77bcf86cd799439012'' (take 2 catalogue) =
     (\<lparr> status = 200, payload = Message ''Product deleted successfully'' \<rparr>,
      [sample ''507f1f77bcf86cd799439011'' ''Laptop'' ''Electronics'' (99999 / 100)]) \<and>
   delete_product findByIdAndDelete_model ''507f1f77bcf86cd799439012''
     [sample ''507f1f77bcf86cd799439011'' ''Laptop'' ''Electronics'' (99999 / 100)] =
     (\<lparr> status = 404, payload = Message ''Product not found'' \<rparr>,
      [sample ''507f1f77bcf86cd799439011'' ''Laptop'' ''Electronics'' (99999 / 100)])"
proof -
  let ?i = "''507f1f77bcf86cd799439012''"
  have h1: "distinct (map pid (take 2 catalogue))"
    by code_simp
  have h2: "valid_id ?i"
    by code_simp
  have h3: "?i \<in> pid ` set (take 2 catalogue)"
    by code_simp
  have v: "delete_first ?i (take 2 catalogue) =
      [sample ''507f1f77bcf86cd799439011'' ''Laptop'' ''Electronics'' (99999 / 100)]"
    by code_simp
  show ?thesis
    using delete_twice [OF h1 h2 h3] h1 h2 h3 by (simp only: v simp_thms)
qed

text \<open>
  C10. The create operation reads only the six fields \<^verbatim>\<open>name\<close>, \<^verbatim>\<open>description\<close>,
  \<^verbatim>\<open>price\<close>, \<^verbatim>\<open>category\<close>, \<^verbatim>\<open>inStock\<close> and \<^verbatim>\<open>tags\<close> of the body: whatever the storage
  call does, the response and the collection are those of the body cut down to the six
  fields, and a client's \<^verbatim>\<open>_id\<close> or \<^verbatim>\<open>createdAt\<close> changes nothing.
\<close>

theorem create_reads_six_fields:
  "candidate_of b =
     candidate_of (b |` {''name'', ''description'', ''price'', ''category'', ''inStock'', ''tags''}) \<and>
   post_product save b st =
     post_product save
       (b |` {''name'', ''description'', ''price'', ''category'', ''inStock'', ''tags''}) st \<and>
   post_product save (b(''_id'' := x, ''createdAt'' := y)) st = post_product save b st"
  by (simp add: post_product_def candidate_of_def)

text \<open>
  C4 on the code. A fault of the storage engine that is no validation error, such as a lost
  connection, ends in status 400 in the create and the update handler, whose \<^verbatim>\<open>catch\<close>
  answers 400 to every error; the list, read and delete handlers answer 500.
\<close>

theorem storage_fault_on_write_is_400:
  "post_product (\<lambda>c s. Inl (StorageFault m)) b st =
     (\<lparr> status = 400, payload = Message m \<rparr>, st) \<and>
   put_product (\<lambda>i b s. Inl (StorageFault m)) ident b st =
     (\<lparr> status = 400, payload = Message m \<rparr>, st) \<and>
   get_all (\<lambda>q s k l. Inl (StorageFault m)) rq = \<lparr> status = 500, payload = Message m \<rparr> \<and>
   get_by_id (\<lambda>i. Inl (StorageFault m)) ident = \<lparr> status = 500, payload = Message m \<rparr> \<and>
   delete_product (\<lambda>i s. Inl (StorageFault m)) ident st =
     (\<lparr> status = 500, payload = Message m \<rparr>, st)"
  by (simp add: post_product_def put_product_def get_all_def get_by_id_def delete_product_def
      Let_def)

end
